theory Spec2Isabelle
  imports Main "HOL-Library.Word"
begin

unbundle bit_operations_syntax

section \<open>Pages and meta pages of the storage engine (package db)\<close>

text \<open>
  Go's \<open>uint64\<close>, \<open>uint32\<close> and \<open>uint16\<close> are words of that width: arithmetic wraps and
  comparison is unsigned.  Go's \<open>int\<close> is a 64-bit signed integer; it is modelled by \<open>int\<close>
  with the conversions to unsigned types (\<open>uint32(n)\<close>, \<open>pgid(n)\<close>) written as \<open>word_of_int\<close>.
\<close>

type_synonym pgid = "64 word"
type_synonym txnid = "64 word"

definition magic :: "32 word" where
  "magic = 0xDEADC0DE"

definition version :: "32 word" where
  "version = 1"

definition minPageSize :: int where
  "minPageSize = 0x1000"

definition p_branch :: "16 word" where "p_branch = 0x01"
definition p_leaf :: "16 word" where "p_leaf = 0x02"
definition p_meta :: "16 word" where "p_meta = 0x04"
definition p_sys :: "16 word" where "p_sys = 0x08"
definition p_freelist :: "16 word" where "p_freelist = 0x10"

text \<open>
  Failures are values.  \<open>Error msg cause\<close> is the wrapper \<open>&Error{msg, err}\<close> of the source
  (its cause may be nil), \<open>OSError\<close> is a failure reported by a system call, and \<open>Panic\<close> is
  a Go run-time panic (nil dereference, index out of range, \<open>make\<close> with a bad length).
\<close>

datatype error =
    InvalidError
  | VersionMismatchError
  | DatabaseAlreadyOpenedError
  | DatabaseNotOpenError
  | OSError string
  | Error string "error option"
  | Panic

text \<open>
  \<open>type meta struct\<close>.  The fields keep the order of the struct; they carry the prefix
  \<open>m_\<close> because the source reuses the names \<open>magic\<close>, \<open>version\<close> and \<open>pageSize\<close> for
  constants and for a field of \<open>DB\<close>.  The source calls the fields \<open>free\<close> and \<open>sys\<close>
  \<open>freelist\<close> and \<open>buckets\<close> in \<open>DB.init\<close> and \<open>DB.Open\<close>; they are the same fields.
\<close>

record meta =
  m_magic :: "32 word"
  m_version :: "32 word"
  m_pageSize :: "32 word"
  m_pgid :: pgid
  m_free :: pgid
  m_sys :: pgid
  m_txnid :: txnid

text \<open>\<open>meta.validate\<close>: nil is \<open>None\<close>.\<close>

definition validate :: "meta \<Rightarrow> error option" where
  "validate m =
     (if m_magic m \<noteq> magic then Some InvalidError
      else if m_version m \<noteq> version then Some VersionMismatchError
      else None)"

text \<open>\<open>meta.copy\<close>: the seven assignments to \<open>dest\<close>, in the order of the source.\<close>

definition meta_copy :: "meta \<Rightarrow> meta \<Rightarrow> meta" where
  "meta_copy m dest =
     (let dest = dest\<lparr>m_magic := m_magic m\<rparr>;
          dest = dest\<lparr>m_version := m_version m\<rparr>;
          dest = dest\<lparr>m_pageSize := m_pageSize m\<rparr>;
          dest = dest\<lparr>m_pgid := m_pgid m\<rparr>;
          dest = dest\<lparr>m_free := m_free m\<rparr>;
          dest = dest\<lparr>m_txnid := m_txnid m\<rparr>;
          dest = dest\<lparr>m_sys := m_sys m\<rparr>
      in dest)"

text \<open>
  A bucket descriptor of the catalog: the root page id of the bucket's tree.
\<close>

record bucket =
  b_root :: pgid

text \<open>
  \<open>type page struct\<close>: the header fields \<open>id\<close>, \<open>flags\<close>, \<open>count\<close>, \<open>overflow\<close>, and the
  body that starts at \<open>ptr\<close>.  The source reads the body through unsafe casts; the model
  keeps one field per cast that the modelled code uses: \<open>pg_meta\<close> is what \<open>page.meta()\<close>
  points at, \<open>pg_pgids\<close> is the array of page ids behind \<open>page.freelist()\<close>, and
  \<open>pg_buckets\<close> is the bucket catalog that \<open>sys.read\<close> decodes.
\<close>

record page =
  pg_id :: pgid
  pg_flags :: "16 word"
  pg_count :: "16 word"
  pg_overflow :: "32 word"
  pg_meta :: meta
  pg_pgids :: "nat \<Rightarrow> pgid"
  pg_buckets :: "(string \<times> bucket) list"

text \<open>\<open>page.freelist\<close>: the first \<open>count\<close> page ids of the body.\<close>

definition page_freelist :: "page \<Rightarrow> pgid list" where
  "page_freelist p = map (pg_pgids p) [0 ..< unat (pg_count p)]"

text \<open>
  \<open>meta.write\<close> (\<open>write\<close> is a reserved word of Isabelle): sets the page id to \<open>txnid % 2\<close>, sets the meta flag, and copies the meta
  into the page body.
\<close>

definition meta_write :: "meta \<Rightarrow> page \<Rightarrow> page" where
  "meta_write m p =
     (let p = p\<lparr>pg_id := m_txnid m mod 2\<rparr>;
          p = p\<lparr>pg_flags := pg_flags p OR p_meta\<rparr>;
          p = p\<lparr>pg_meta := meta_copy m (pg_meta p)\<rparr>
      in p)"

section \<open>Freelist and bucket catalog\<close>

text \<open>
  \<open>type freelist\<close>: the free page ids and the pages pending release, by the transaction
  that freed them.  The pending map is an association list so that release can walk it.
\<close>

record freelist =
  ids :: "pgid list"
  pending :: "(txnid \<times> pgid list) list"

text \<open>
  Modelled from the spec: \<open>freelist.read\<close> is not among the source files.  The spec says
  it deserialises the free set from a freelist page; the page ids of a freelist page are
  what \<open>page.freelist()\<close> returns.
\<close>

definition freelist_read :: "freelist \<Rightarrow> page \<Rightarrow> freelist" where
  "freelist_read f p = f\<lparr>ids := page_freelist p\<rparr>"

text \<open>
  Modelled from the spec: \<open>freelist.release\<close> is not among the source files.  The spec:
  "release(minid) moves every pending entry with key \<le> minid into the free set", and
  "the free set is kept sorted by id".
\<close>

definition freelist_release :: "txnid \<Rightarrow> freelist \<Rightarrow> freelist" where
  "freelist_release minid f =
     f\<lparr>ids := sort (ids f @ concat (map snd (filter (\<lambda>e. fst e \<le> minid) (pending f)))),
       pending := filter (\<lambda>e. \<not> fst e \<le> minid) (pending f)\<rparr>"

text \<open>
  Modelled from the spec: \<open>freelist.allocate\<close> is not among the source files.  The spec:
  "allocate(n) finds the lowest-id contiguous run of length n in the free set, removes it,
  returns its first id; returns 0 if none".
\<close>

definition run_ids :: "pgid \<Rightarrow> int \<Rightarrow> pgid list" where
  "run_ids x n = map (\<lambda>k. x + of_nat k) [0 ..< nat n]"

definition freelist_allocate :: "int \<Rightarrow> freelist \<Rightarrow> pgid \<times> freelist" where
  "freelist_allocate n f =
     (case filter (\<lambda>x. list_all (\<lambda>y. y \<in> set (ids f)) (run_ids x n)) (sort (ids f)) of
        [] \<Rightarrow> (0, f)
      | x # _ \<Rightarrow> (x, f\<lparr>ids := filter (\<lambda>y. y \<notin> set (run_ids x n)) (ids f)\<rparr>))"

text \<open>\<open>type sys\<close>, the in-memory bucket catalog: bucket name to descriptor.\<close>

type_synonym sys = "(string \<times> bucket) list"

text \<open>
  Modelled from the spec: \<open>sys.read\<close> and \<open>sys.get\<close> are not among the source files.  The
  spec: the bucket catalog page is "a mapping from bucket name to a bucket descriptor";
  \<open>get\<close> returns the descriptor of a name, or nil (\<open>None\<close>) when the name has none.
\<close>

definition sys_read :: "page \<Rightarrow> sys" where
  "sys_read p = pg_buckets p"

definition sys_get :: "sys \<Rightarrow> string \<Rightarrow> bucket option" where
  "sys_get s name = map_of s name"

section \<open>Files, system calls and the database\<close>

text \<open>
  A byte region (a buffer, the file, the mmap) is seen by the source only through casts of
  an offset to \<open>*page\<close>; \<open>r_page\<close> gives the page struct at a byte offset and \<open>r_len\<close> the
  length of the region in bytes.  Page structs at different offsets are independent, which
  is the case when the offsets are at least the size of the structs apart.
\<close>

record region =
  r_len :: int
  r_page :: "nat \<Rightarrow> page"

definition zero_meta :: meta where
  "zero_meta = \<lparr>m_magic = 0, m_version = 0, m_pageSize = 0, m_pgid = 0, m_free = 0,
                 m_sys = 0, m_txnid = 0\<rparr>"

definition zero_page :: page where
  "zero_page = \<lparr>pg_id = 0, pg_flags = 0, pg_count = 0, pg_overflow = 0, pg_meta = zero_meta,
                 pg_pgids = (\<lambda>_. 0), pg_buckets = []\<rparr>"

text \<open>\<open>make([]byte, n)\<close> for \<open>n \<ge> 0\<close>: a zeroed buffer.\<close>

definition make_bytes :: "int \<Rightarrow> region" where
  "make_bytes n = \<lparr>r_len = n, r_page = (\<lambda>_. zero_page)\<rparr>"

text \<open>
  The two handles that \<open>DB.Open\<close> opens on the data file, the system calls the source
  issues on them, and the outcome of each fallible call (the source reaches them through
  the interfaces \<open>_os\<close>, \<open>_syscall\<close> and \<open>file\<close>, which its tests replace by mocks).
  \<open>None\<close> is a nil error.
\<close>

datatype handle = DataFile | MetaFile

datatype io_event =
    EvOpenFile handle
  | EvStat handle
  | EvReadAt handle int int
  | EvWriteAt handle int int
  | EvMmap handle int
  | EvFsync handle

record env =
  e_Getpagesize :: int
  e_OpenFile :: "handle \<Rightarrow> error option"
  e_Stat :: "error option"
  e_Stat_mmap :: "error option"
  e_ReadAt :: "error option"
  e_WriteAt :: "error option"
  e_Mmap :: "error option"
  e_Fsync :: "error option"

text \<open>The file at the database path (size 0 when it has just been created) and the log of calls.\<close>

record world =
  w_disk :: region
  w_log :: "io_event list"

definition emit :: "io_event \<Rightarrow> world \<Rightarrow> world" where
  "emit ev w = w\<lparr>w_log := w_log w @ [ev]\<rparr>"

text \<open>
  \<open>type Transaction struct\<close>.  \<open>t_addr\<close> is the address of the struct (the source compares
  transactions as pointers); the back pointer \<open>db\<close> is not stored, the functions take the
  database as an argument.  \<open>t_meta\<close> holds the meta that the pointer \<open>meta\<close> points at;
  \<open>t_pages\<close> is \<open>None\<close> for a nil map.
\<close>

record Transaction =
  t_addr :: nat
  t_id :: int
  t_meta :: meta
  t_sys :: sys
  t_pages :: "(pgid \<rightharpoonup> page) option"

text \<open>
  \<open>type RWTransaction struct\<close> embeds \<open>Transaction\<close> and adds the node cache
  (\<open>RWTransaction{nodes: make(map[pgid]*node)}\<close> in \<open>DB.RWTransaction\<close>).
\<close>

record RWTransaction = Transaction +
  rw_nodes :: "pgid \<rightharpoonup> nat"

text \<open>
  \<open>type DB struct\<close>.  \<open>meta0\<close> and \<open>meta1\<close> hold the metas the two pointers point at
  (\<open>None\<close> is nil); \<open>freelist\<close> and \<open>rwtransaction\<close> are pointers too.  Of the three locks
  only \<open>rwlock\<close> is held across calls; it is \<open>True\<close> while a writer holds it.
  The field \<open>file\<close> is \<open>datafile\<close> here (\<open>file\<close> is a reserved word of Isabelle).
\<close>

record DB =
  path :: string
  datafile :: "handle option"
  metafile :: "handle option"
  data :: region
  meta0 :: "meta option"
  meta1 :: "meta option"
  pageSize :: int
  opened :: bool
  rwtransaction :: "RWTransaction option"
  transactions :: "Transaction list"
  freelist :: "freelist option"
  rwlock :: bool

text \<open>\<open>NewDB\<close>: \<open>&DB{}\<close>, every field zero.\<close>

definition NewDB :: DB where
  "NewDB = \<lparr>path = [], datafile = None, metafile = None, data = \<lparr>r_len = 0, r_page = (\<lambda>_. zero_page)\<rparr>,
            meta0 = None, meta1 = None, pageSize = 0, opened = False, rwtransaction = None,
            transactions = [], freelist = None, rwlock = False\<rparr>"

text \<open>
  \<open>DB.page\<close> and \<open>DB.pageInBuffer\<close>: the address of element \<open>id*pgid(db.pageSize)\<close> of
  the byte slice.  The product is computed in \<open>uint64\<close>; an index outside the slice panics.
  \<open>pageInBuffer\<close> returns the offset of the page in the buffer (the callers write through
  the pointer); \<open>DB.page\<close> returns the page struct found at the offset in the mmap.
\<close>

definition pageInBuffer :: "DB \<Rightarrow> region \<Rightarrow> pgid \<Rightarrow> error + nat" where
  "pageInBuffer db b i =
     (let off = unat (i * word_of_int (pageSize db))
      in if int off < r_len b then Inr off else Inl Panic)"

definition DB_page :: "DB \<Rightarrow> pgid \<Rightarrow> error + page" where
  "DB_page db i =
     (let off = unat (i * word_of_int (pageSize db))
      in if int off < r_len (data db) then Inr (r_page (data db) off) else Inl Panic)"

text \<open>\<open>DB.meta\<close>: the current meta.  Dereferencing a nil meta pointer panics.\<close>

definition DB_meta :: "DB \<Rightarrow> error + meta" where
  "DB_meta db =
     (case meta0 db of
        None \<Rightarrow> Inl Panic
      | Some m0 \<Rightarrow>
          (case meta1 db of
             None \<Rightarrow> Inl Panic
           | Some m1 \<Rightarrow> if m_txnid m0 > m_txnid m1 then Inr m0 else Inr m1))"

text \<open>\<open>DB.close\<close>.\<close>

definition DB_close :: "DB \<Rightarrow> DB" where
  "DB_close db = db\<lparr>freelist := None\<rparr>"

section \<open>Creating and opening a database\<close>

text \<open>
  The body of the loop \<open>for i := 0; i < 2; i++\<close> of \<open>DB.init\<close>: meta page \<open>i\<close> written
  into the buffer.  The source names the fields \<open>free\<close> and \<open>sys\<close> of the meta
  \<open>freelist\<close> and \<open>buckets\<close> here.
\<close>

definition init_meta_page :: "DB \<Rightarrow> nat \<Rightarrow> region \<Rightarrow> error + region" where
  "init_meta_page db i buf =
     (case pageInBuffer db buf (of_nat i) of
        Inl e \<Rightarrow> Inl e
      | Inr off \<Rightarrow>
          (let p = r_page buf off;
              p = p\<lparr>pg_id := of_nat i\<rparr>;
              p = p\<lparr>pg_flags := p_meta\<rparr>;
              m = pg_meta p;
              m = m\<lparr>m_magic := magic\<rparr>;
              m = m\<lparr>m_version := version\<rparr>;
              m = m\<lparr>m_pageSize := word_of_int (pageSize db)\<rparr>;
              m = m\<lparr>m_version := version\<rparr>;
              m = m\<lparr>m_free := 2\<rparr>;
              m = m\<lparr>m_sys := 3\<rparr>;
              m = m\<lparr>m_pgid := 4\<rparr>;
              m = m\<lparr>m_txnid := of_nat i\<rparr>;
              p = p\<lparr>pg_meta := m\<rparr>
          in Inr (buf\<lparr>r_page := (r_page buf)(off := p)\<rparr>)))"

text \<open>
  The two pages after the loop: page 2 with the freelist flag and page 3 with the flag the
  source calls \<open>p_buckets\<close> there (\<open>p_sys\<close> in the list of page flags), both with count 0.
\<close>

definition init_empty_page :: "DB \<Rightarrow> pgid \<Rightarrow> 16 word \<Rightarrow> region \<Rightarrow> error + region" where
  "init_empty_page db i fl buf =
     (case pageInBuffer db buf i of
        Inl e \<Rightarrow> Inl e
      | Inr off \<Rightarrow>
          (let p = r_page buf off;
              p = p\<lparr>pg_id := i\<rparr>;
              p = p\<lparr>pg_flags := fl\<rparr>;
              p = p\<lparr>pg_count := 0\<rparr>
          in Inr (buf\<lparr>r_page := (r_page buf)(off := p)\<rparr>)))"

text \<open>\<open>WriteAt(buf, off)\<close> on the file, when it succeeds.\<close>

definition write_at :: "region \<Rightarrow> nat \<Rightarrow> region \<Rightarrow> region" where
  "write_at buf off f =
     \<lparr>r_len = max (r_len f) (int off + r_len buf),
      r_page = (\<lambda>k. if off \<le> k \<and> int k < int off + r_len buf then r_page buf (k - off)
                     else r_page f k)\<rparr>"

text \<open>
  \<open>DB.init\<close>.  \<open>make\<close> panics on a negative length, and \<open>pageInBuffer\<close> on a buffer of
  length 0.  The function returns the error (nil is \<open>None\<close>), the database and the world.
\<close>

definition DB_init :: "env \<Rightarrow> DB \<Rightarrow> world \<Rightarrow> error option \<times> DB \<times> world" where
  "DB_init ev db w =
     (let db = db\<lparr>pageSize := e_Getpagesize ev\<rparr>
      in if pageSize db * 4 < 0 then (Some Panic, db, w)
         else
           (case init_meta_page db 0 (make_bytes (pageSize db * 4)) of
              Inl e \<Rightarrow> (Some e, db, w)
            | Inr buf \<Rightarrow>
           (case init_meta_page db 1 buf of
              Inl e \<Rightarrow> (Some e, db, w)
            | Inr buf \<Rightarrow>
           (case init_empty_page db 2 p_freelist buf of
              Inl e \<Rightarrow> (Some e, db, w)
            | Inr buf \<Rightarrow>
           (case init_empty_page db 3 p_sys buf of
              Inl e \<Rightarrow> (Some e, db, w)
            | Inr buf \<Rightarrow>
           (case metafile db of
              None \<Rightarrow> (Some Panic, db, w)
            | Some h \<Rightarrow>
                (let w = emit (EvWriteAt h 0 (r_len buf)) w
                 in (case e_WriteAt ev of
                       Some e \<Rightarrow> (Some e, db, w)
                     | None \<Rightarrow> (None, db, w\<lparr>w_disk := write_at buf 0 (w_disk w)\<rparr>)))))))))"

text \<open>
  \<open>DB.mmap\<close>.  The mapping has \<open>2 << 30\<close> bytes and shows the file.  On an error of the
  system call the source has already assigned its (nil) result to \<open>db.data\<close>.
\<close>

definition DB_mmap :: "env \<Rightarrow> DB \<Rightarrow> world \<Rightarrow> error option \<times> DB \<times> world" where
  "DB_mmap ev db w =
     (case datafile db of
        None \<Rightarrow> (Some Panic, db, w)
      | Some h \<Rightarrow>
          (let w = emit (EvStat h) w
           in (case e_Stat_mmap ev of
                 Some e \<Rightarrow> (Some (Error ''mmap stat error'' (Some e)), db, w)
               | None \<Rightarrow>
                   if r_len (w_disk w) < pageSize db * 2
                   then (Some (Error ''file size too small'' None), db, w)
                   else
                     (let w = emit (EvMmap h (2 * 2 ^ 30)) w
                      in (case e_Mmap ev of
                            Some e \<Rightarrow>
                              (Some e, db\<lparr>data := \<lparr>r_len = 0, r_page = (\<lambda>_. zero_page)\<rparr>\<rparr>, w)
                          | None \<Rightarrow>
                              (let db = db\<lparr>data := \<lparr>r_len = 2 * 2 ^ 30,
                                                      r_page = r_page (w_disk w)\<rparr>\<rparr>
                               in (case DB_page db 0 of
                                     Inl e \<Rightarrow> (Some e, db, w)
                                   | Inr p0 \<Rightarrow>
                                       (let db = db\<lparr>meta0 := Some (pg_meta p0)\<rparr>
                                        in (case DB_page db 1 of
                                              Inl e \<Rightarrow> (Some e, db, w)
                                            | Inr p1 \<Rightarrow>
                                                (let db = db\<lparr>meta1 := Some (pg_meta p1)\<rparr>
                                                 in (case validate (pg_meta p0) of
                                                       Some e \<Rightarrow>
                                                         (Some (Error ''meta0 error'' (Some e)), db, w)
                                                     | None \<Rightarrow>
                                                         (case validate (pg_meta p1) of
                                                            Some e \<Rightarrow>
                                                              (Some (Error ''meta1 error'' (Some e)), db, w)
                                                          | None \<Rightarrow> (None, db, w)))))))))))))"

text \<open>
  The branch of \<open>DB.Open\<close> for a file that is not empty: read the first \<open>minPageSize\<close>
  bytes and take the page size from the first meta page.  \<open>ReadAt\<close> fails when the system
  call does or when the file is shorter than the buffer; the source then goes on without
  setting the page size.
\<close>

definition Open_existing :: "env \<Rightarrow> DB \<Rightarrow> world \<Rightarrow> error option \<times> DB \<times> world" where
  "Open_existing ev db w =
     (case datafile db of
        None \<Rightarrow> (Some Panic, db, w)
      | Some h \<Rightarrow>
          (let w = emit (EvReadAt h 0 minPageSize) w
           in if e_ReadAt ev = None \<and> minPageSize \<le> r_len (w_disk w)
              then
                (case pageInBuffer db \<lparr>r_len = minPageSize, r_page = r_page (w_disk w)\<rparr> 0 of
                   Inl e \<Rightarrow> (Some e, db, w)
                 | Inr off \<Rightarrow>
                     (let m = pg_meta (r_page (w_disk w) off)
                      in (case validate m of
                            Some e \<Rightarrow> (Some (Error ''meta error'' (Some e)), db, w)
                          | None \<Rightarrow> (None, db\<lparr>pageSize := uint (m_pageSize m)\<rparr>, w))))
              else (None, db, w)))"

text \<open>The end of \<open>DB.Open\<close>: map the file, read the freelist, mark the database open.\<close>

definition Open_finish :: "env \<Rightarrow> DB \<Rightarrow> world \<Rightarrow> error option \<times> DB \<times> world" where
  "Open_finish ev db w =
     (case DB_mmap ev db w of
        (Some e, db, w) \<Rightarrow> (Some e, DB_close db, w)
      | (None, db, w) \<Rightarrow>
          (let db = db\<lparr>freelist := Some \<lparr>ids = [], pending = []\<rparr>\<rparr>
           in (case DB_meta db of
                 Inl e \<Rightarrow> (Some e, db, w)
               | Inr m \<Rightarrow>
                   (case DB_page db (m_free m) of
                      Inl e \<Rightarrow> (Some e, db, w)
                    | Inr p \<Rightarrow>
                        (None, db\<lparr>freelist := Some (freelist_read \<lparr>ids = [], pending = []\<rparr> p),
                                  opened := True\<rparr>, w)))))"

text \<open>
  \<open>DB.Open\<close>.  \<open>O_CREATE\<close> makes a missing file an empty one, which is a disk of length 0.
\<close>

definition DB_Open :: "env \<Rightarrow> string \<Rightarrow> nat \<Rightarrow> DB \<Rightarrow> world \<Rightarrow> error option \<times> DB \<times> world" where
  "DB_Open ev pth mode db w =
     (if opened db then (Some DatabaseAlreadyOpenedError, db, w)
      else
        (let db = db\<lparr>path := pth\<rparr>;
             w = emit (EvOpenFile DataFile) w
         in (case e_OpenFile ev DataFile of
               Some e \<Rightarrow> (Some e, DB_close (db\<lparr>datafile := None\<rparr>), w)
             | None \<Rightarrow>
                 (let db = db\<lparr>datafile := Some DataFile\<rparr>;
                      w = emit (EvOpenFile MetaFile) w
                  in (case e_OpenFile ev MetaFile of
                        Some e \<Rightarrow> (Some e, DB_close (db\<lparr>metafile := None\<rparr>), w)
                      | None \<Rightarrow>
                          (let db = db\<lparr>metafile := Some MetaFile\<rparr>;
                               w = emit (EvStat DataFile) w
                           in (case e_Stat ev of
                                 Some e \<Rightarrow> (Some (Error ''stat error'' (Some e)), db, w)
                               | None \<Rightarrow>
                                   (case (if r_len (w_disk w) = 0 then DB_init ev db w
                                          else Open_existing ev db w) of
                                      (Some e, db, w) \<Rightarrow> (Some e, db, w)
                                    | (None, db, w) \<Rightarrow> Open_finish ev db w))))))))"

text \<open>
  \<open>DB.sync\<close>: "sync flushes the file descriptor to disk".  \<open>force\<close> is not used by the
  source.  Calling \<open>Fd\<close> on a nil file panics.
\<close>

definition DB_sync :: "env \<Rightarrow> DB \<Rightarrow> bool \<Rightarrow> world \<Rightarrow> error option \<times> world" where
  "DB_sync ev db force w =
     (if opened db then (Some DatabaseAlreadyOpenedError, w)
      else
        (case datafile db of
           None \<Rightarrow> (Some Panic, w)
         | Some h \<Rightarrow>
             (let w = emit (EvFsync h) w
              in (case e_Fsync ev of
                    Some e \<Rightarrow> (Some e, w)
                  | None \<Rightarrow> (None, w)))))"

section \<open>Transactions\<close>

text \<open>
  \<open>Transaction.page\<close>: the dirty pages first (when the map is not nil), otherwise the
  mmap.  The function is used for the embedded transaction of a writer as well.
\<close>

definition Transaction_page :: "DB \<Rightarrow> 'a Transaction_scheme \<Rightarrow> pgid \<Rightarrow> error + page" where
  "Transaction_page db t i =
     (case t_pages t of
        None \<Rightarrow> DB_page db i
      | Some pages \<Rightarrow>
          (case pages i of
             Some p \<Rightarrow> Inr p
           | None \<Rightarrow> DB_page db i))"

text \<open>\<open>Transaction.init\<close>.\<close>

definition Transaction_init ::
  "DB \<Rightarrow> 'a Transaction_scheme \<Rightarrow> error + 'a Transaction_scheme" where
  "Transaction_init db t =
     (case DB_meta db of
        Inl e \<Rightarrow> Inl e
      | Inr m \<Rightarrow>
          (let t = t\<lparr>t_meta := m\<rparr>;
               t = t\<lparr>t_pages := None\<rparr>
           in (case Transaction_page db t (m_sys (t_meta t)) of
                 Inl e \<Rightarrow> Inl e
               | Inr p \<Rightarrow> Inr (t\<lparr>t_sys := sys_read p\<rparr>))))"

text \<open>
  Modelled from the spec: the accessor \<open>id()\<close> that \<open>DB.RWTransaction\<close> calls on a reader
  is not among the source files.  In the spec a reader's transaction id is the txid of the
  meta it captured at begin.
\<close>

definition Transaction_id :: "'a Transaction_scheme \<Rightarrow> txnid" where
  "Transaction_id t = m_txnid (t_meta t)"

text \<open>
  \<open>Transaction.Close\<close>: the body of the source is the comment "TODO: Close buckets."; the
  database is what it was.
\<close>

definition Transaction_Close :: "Transaction \<Rightarrow> DB \<Rightarrow> DB" where
  "Transaction_Close t db = db"

text \<open>
  \<open>DB.Transaction\<close>; \<open>a\<close> is the address of the new \<open>&Transaction{}\<close>.  The function
  returns the error, or the transaction and the database.
\<close>

definition DB_Transaction :: "nat \<Rightarrow> DB \<Rightarrow> error + Transaction \<times> DB" where
  "DB_Transaction a db =
     (if \<not> opened db then Inl DatabaseNotOpenError
      else
        (case Transaction_init db
                \<lparr>t_addr = a, t_id = 0, t_meta = zero_meta, t_sys = [], t_pages = None\<rparr> of
           Inl e \<Rightarrow> Inl e
         | Inr t \<Rightarrow> Inr (t, db\<lparr>transactions := transactions db @ [t]\<rparr>)))"

text \<open>
  \<open>DB.removeTransaction\<close>: the loop removes the first element that is the pointer \<open>t\<close>
  and breaks.
\<close>

fun remove_txn :: "nat \<Rightarrow> Transaction list \<Rightarrow> Transaction list" where
  "remove_txn a [] = []"
| "remove_txn a (txn # rest) = (if t_addr txn = a then rest else txn # remove_txn a rest)"

definition removeTransaction :: "Transaction \<Rightarrow> DB \<Rightarrow> DB" where
  "removeTransaction t db = db\<lparr>transactions := remove_txn (t_addr t) (transactions db)\<rparr>"

text \<open>
  Modelled from the spec: \<open>RWTransaction.init\<close> is not among the source files.  The spec:
  a read/write transaction "copies the current meta, increments the transaction id" and
  "maintains a dirty-page map".
\<close>

definition RWTransaction_init :: "DB \<Rightarrow> RWTransaction \<Rightarrow> error + RWTransaction" where
  "RWTransaction_init db t =
     (case Transaction_init db t of
        Inl e \<Rightarrow> Inl e
      | Inr t \<Rightarrow>
          (case DB_meta db of
             Inl e \<Rightarrow> Inl e
           | Inr m \<Rightarrow>
               (let t = t\<lparr>t_pages := Some Map.empty\<rparr>;
                    t = t\<lparr>t_meta := meta_copy m zero_meta\<rparr>;
                    t = t\<lparr>t_meta := (t_meta t)\<lparr>m_txnid := m_txnid (t_meta t) + 1\<rparr>\<rparr>
                in Inr t)))"

text \<open>
  The loop of \<open>DB.RWTransaction\<close> over \<open>db.transactions\<close>, from \<open>minid\<close>.
\<close>

fun min_txnid :: "Transaction list \<Rightarrow> txnid \<Rightarrow> txnid" where
  "min_txnid [] minid = minid"
| "min_txnid (t # ts) minid =
     min_txnid ts (if Transaction_id t < minid then Transaction_id t else minid)"

text \<open>
  \<open>DB.RWTransaction\<close>; \<open>a\<close> is the address of the new \<open>&RWTransaction{...}\<close>.  Taking the
  writer lock while it is held never returns in a sequential run: \<open>Blocked\<close>.  Calling
  \<open>release\<close> on a nil freelist panics.
\<close>

datatype 'a outcome = Returns 'a | Blocked

definition DB_RWTransaction :: "nat \<Rightarrow> DB \<Rightarrow> (error + RWTransaction \<times> DB) outcome" where
  "DB_RWTransaction a db =
     (if rwlock db then Blocked
      else
        (let db = db\<lparr>rwlock := True\<rparr>
         in if \<not> opened db then Returns (Inl DatabaseNotOpenError)
            else
              (case RWTransaction_init db
                      \<lparr>t_addr = a, t_id = 0, t_meta = zero_meta, t_sys = [], t_pages = None,
                       rw_nodes = Map.empty\<rparr> of
                 Inl e \<Rightarrow> Returns (Inl e)
               | Inr t \<Rightarrow>
                   (let db = db\<lparr>rwtransaction := Some t\<rparr>;
                        minid = min_txnid (transactions db) 0xFFFFFFFFFFFFFFFF
                    in if minid > 0
                       then
                         (case freelist db of
                            None \<Rightarrow> Returns (Inl Panic)
                          | Some f \<Rightarrow>
                              Returns (Inr (t, db\<lparr>freelist := Some (freelist_release (minid - 1) f)\<rparr>)))
                       else Returns (Inr (t, db))))))"

text \<open>
  \<open>DB.allocate\<close>.  The length \<open>count*db.pageSize\<close> is computed in Go's \<open>int\<close> (64 bits,
  signed): \<open>make\<close> panics on a negative length and \<open>&buf[0]\<close> on an empty buffer.  The
  result is the length of the buffer in bytes and the page struct at its start, with the
  database.  The function writes to no file.
\<close>

definition DB_allocate :: "DB \<Rightarrow> int \<Rightarrow> error + (int \<times> page) \<times> DB" where
  "DB_allocate db count =
     (let n = sint (word_of_int (count * pageSize db) :: 64 word)
      in if n \<le> 0 then Inl Panic
         else
           (let p = r_page (make_bytes n) 0;
                p = p\<lparr>pg_overflow := word_of_int (count - 1)\<rparr>
            in (case freelist db of
                  None \<Rightarrow> Inl Panic
                | Some f \<Rightarrow>
                    (let (i, f) = freelist_allocate count f;
                         db = db\<lparr>freelist := Some f\<rparr>;
                         p = p\<lparr>pg_id := i\<rparr>
                     in if pg_id p \<noteq> 0 then Inr ((n, p), db)
                        else
                          (case rwtransaction db of
                             None \<Rightarrow> Inl Panic
                           | Some t \<Rightarrow>
                               (let p = p\<lparr>pg_id := m_pgid (t_meta t)\<rparr>;
                                    t = t\<lparr>t_meta := (t_meta t)\<lparr>m_pgid := m_pgid (t_meta t)
                                                                     + word_of_int count\<rparr>\<rparr>
                                in Inr ((n, p), db\<lparr>rwtransaction := Some t\<rparr>)))))))"

section \<open>Lookups by bucket name\<close>

text \<open>\<open>type Bucket struct\<close>; the transaction is kept by its address.\<close>

record Bucket =
  bk_bucket :: bucket
  bk_name :: string
  bk_transaction :: nat

text \<open>\<open>Transaction.Bucket\<close>: nil is \<open>None\<close>.\<close>

definition Transaction_Bucket :: "Transaction \<Rightarrow> string \<Rightarrow> Bucket option" where
  "Transaction_Bucket t name =
     (case sys_get (t_sys t) name of
        None \<Rightarrow> None
      | Some b \<Rightarrow> Some \<lparr>bk_bucket = b, bk_name = name, bk_transaction = t_addr t\<rparr>)"

text \<open>
  \<open>Transaction.Cursor\<close> and \<open>Transaction.Get\<close>.  \<open>Bucket.Cursor\<close> and \<open>Cursor.Get\<close> are not
  among the source files: they are the parameters \<open>cursor\<close> (from a bucket to a cursor,
  or nil) and \<open>cget\<close> (from a cursor and a key to a value, or nil).  Keys and values are
  byte slices.
\<close>

definition Transaction_Cursor ::
  "(Bucket \<Rightarrow> 'c option) \<Rightarrow> Transaction \<Rightarrow> string \<Rightarrow> 'c option" where
  "Transaction_Cursor cursor t name =
     (case Transaction_Bucket t name of
        None \<Rightarrow> None
      | Some b \<Rightarrow> cursor b)"

definition Transaction_Get ::
  "(Bucket \<Rightarrow> 'c option) \<Rightarrow> ('c \<Rightarrow> 8 word list \<Rightarrow> 8 word list option)
   \<Rightarrow> Transaction \<Rightarrow> string \<Rightarrow> 8 word list \<Rightarrow> 8 word list option" where
  "Transaction_Get cursor cget t name key =
     (case Transaction_Cursor cursor t name of
        None \<Rightarrow> None
      | Some c \<Rightarrow> cget c key)"

text \<open>
  \<open>DB.Get\<close>: the value, the error and the database after the deferred \<open>t.Close()\<close>.
\<close>

definition DB_Get ::
  "(Bucket \<Rightarrow> 'c option) \<Rightarrow> ('c \<Rightarrow> 8 word list \<Rightarrow> 8 word list option)
   \<Rightarrow> nat \<Rightarrow> DB \<Rightarrow> string \<Rightarrow> 8 word list \<Rightarrow> 8 word list option \<times> error option \<times> DB" where
  "DB_Get cursor cget a db name key =
     (case DB_Transaction a db of
        Inl e \<Rightarrow> (None, Some e, db)
      | Inr (t, db) \<Rightarrow>
          (let v = Transaction_Get cursor cget t name key
           in (v, None, Transaction_Close t db)))"

section \<open>Inputs for the examples\<close>

text \<open>
  An environment in which every system call succeeds, with page size \<open>ps\<close>; an empty file;
  and the database and the file that \<open>DB.Open\<close> makes of them (the path and the mode are
  those of the source's \<open>ExampleDB_Put\<close>).
\<close>

definition sysenv :: "int \<Rightarrow> env" where
  "sysenv ps = \<lparr>e_Getpagesize = ps, e_OpenFile = (\<lambda>_. None), e_Stat = None, e_Stat_mmap = None,
                e_ReadAt = None, e_WriteAt = None, e_Mmap = None, e_Fsync = None\<rparr>"

definition empty_world :: world where
  "empty_world = \<lparr>w_disk = \<lparr>r_len = 0, r_page = (\<lambda>_. zero_page)\<rparr>, w_log = []\<rparr>"

definition new_db :: DB where
  "new_db = fst (snd (DB_Open (sysenv 4096) ''/tmp/bolt/db_put.db'' 438 NewDB empty_world))"

definition new_world :: world where
  "new_world = snd (snd (DB_Open (sysenv 4096) ''/tmp/bolt/db_put.db'' 438 NewDB empty_world))"


section \<open>Round trip of a meta through a page\<close>

lemma meta_copy_eq: "meta_copy m dest = m"
  by (simp add: meta_copy_def)

text \<open>
  Claim C6.  For every meta \<open>m\<close> and page \<open>p\<close>, after \<open>m.write(p)\<close> the page id is
  \<open>m.txnid mod 2\<close> (so it is 0 or 1), the meta flag bit is set, and the meta read back
  through \<open>p.meta()\<close> has the magic, version, page size, next-unallocated page id,
  freelist page id, bucket-catalog page id and transaction id of \<open>m\<close>.
\<close>

theorem meta_write_roundtrip:
  "pg_id (meta_write m p) = m_txnid m mod 2
   \<and> unat (pg_id (meta_write m p)) = unat (m_txnid m) mod 2
   \<and> pg_flags (meta_write m p) AND p_meta = p_meta
   \<and> m_magic (pg_meta (meta_write m p)) = m_magic m
   \<and> m_version (pg_meta (meta_write m p)) = m_version m
   \<and> m_pageSize (pg_meta (meta_write m p)) = m_pageSize m
   \<and> m_pgid (pg_meta (meta_write m p)) = m_pgid m
   \<and> m_free (pg_meta (meta_write m p)) = m_free m
   \<and> m_sys (pg_meta (meta_write m p)) = m_sys m
   \<and> m_txnid (pg_meta (meta_write m p)) = m_txnid m"
  by (simp add: meta_write_def meta_copy_eq unat_mod word_bw_assocs)

section \<open>The example database\<close>

lemmas open_defs = DB_Open_def sysenv_def empty_world_def NewDB_def emit_def DB_init_def
  init_meta_page_def init_empty_page_def pageInBuffer_def make_bytes_def Open_finish_def
  Open_existing_def DB_mmap_def DB_page_def write_at_def validate_def DB_meta_def DB_close_def
  freelist_read_def page_freelist_def zero_page_def zero_meta_def magic_def version_def
  minPageSize_def p_meta_def p_sys_def p_freelist_def

lemma new_db_eq:
  "new_db = \<lparr>path = ''/tmp/bolt/db_put.db'', datafile = Some DataFile, metafile = Some MetaFile,
     data = \<lparr>r_len = 2147483648, r_page = r_page (w_disk new_world)\<rparr>,
     meta0 = Some \<lparr>m_magic = 0xDEADC0DE, m_version = 1, m_pageSize = 4096, m_pgid = 4,
                   m_free = 2, m_sys = 3, m_txnid = 0\<rparr>,
     meta1 = Some \<lparr>m_magic = 0xDEADC0DE, m_version = 1, m_pageSize = 4096, m_pgid = 4,
                   m_free = 2, m_sys = 3, m_txnid = 1\<rparr>,
     pageSize = 4096, opened = True, rwtransaction = None, transactions = [],
     freelist = Some \<lparr>ids = [], pending = []\<rparr>, rwlock = False\<rparr>"
  by (simp add: new_db_def new_world_def open_defs Let_def)

lemma new_world_log:
  "w_log new_world = [EvOpenFile DataFile, EvOpenFile MetaFile, EvStat DataFile,
     EvWriteAt MetaFile 0 16384, EvStat DataFile, EvMmap DataFile 2147483648]"
  by (simp add: new_world_def open_defs Let_def)


lemma new_world_pages:
  "r_page (w_disk new_world) 0 =
     zero_page\<lparr>pg_flags := 4,
       pg_meta := \<lparr>m_magic = 0xDEADC0DE, m_version = 1, m_pageSize = 4096, m_pgid = 4,
                   m_free = 2, m_sys = 3, m_txnid = 0\<rparr>\<rparr>"
  "r_page (w_disk new_world) 4096 =
     zero_page\<lparr>pg_id := 1, pg_flags := 4,
       pg_meta := \<lparr>m_magic = 0xDEADC0DE, m_version = 1, m_pageSize = 4096, m_pgid = 4,
                   m_free = 2, m_sys = 3, m_txnid = 1\<rparr>\<rparr>"
  "r_page (w_disk new_world) 8192 = zero_page\<lparr>pg_id := 2, pg_flags := 16\<rparr>"
  "r_page (w_disk new_world) 12288 = zero_page\<lparr>pg_id := 3, pg_flags := 8\<rparr>"
  by (simp_all add: new_world_def open_defs Let_def)

lemma new_db_Transaction:
  "DB_Transaction a new_db =
     Inr (\<lparr>t_addr = a, t_id = 0,
           t_meta = \<lparr>m_magic = 0xDEADC0DE, m_version = 1, m_pageSize = 4096, m_pgid = 4,
                     m_free = 2, m_sys = 3, m_txnid = 1\<rparr>,
           t_sys = [], t_pages = None\<rparr>,
          new_db\<lparr>transactions := [\<lparr>t_addr = a, t_id = 0,
           t_meta = \<lparr>m_magic = 0xDEADC0DE, m_version = 1, m_pageSize = 4096, m_pgid = 4,
                     m_free = 2, m_sys = 3, m_txnid = 1\<rparr>,
           t_sys = [], t_pages = None\<rparr>]\<rparr>)"
  by (simp add: new_db_eq DB_Transaction_def Transaction_init_def Transaction_page_def
      DB_meta_def DB_page_def new_world_pages sys_read_def zero_page_def Let_def)

section \<open>The current meta\<close>

lemma Transaction_init_meta:
  "Transaction_init db t0 = Inr t \<Longrightarrow>
     DB_meta db = Inr (t_meta t)
     \<and> (\<exists>p. DB_page db (m_sys (t_meta t)) = Inr p \<and> t_sys t = sys_read p)
     \<and> t_pages t = None \<and> t_addr t = t_addr t0"
  by (auto simp: Transaction_init_def Transaction_page_def Let_def split: sum.splits)

text \<open>
  Claim C1.  For a database whose two meta pointers are set, with transaction ids \<open>t0\<close> in
  \<open>meta0\<close> and \<open>t1\<close> in \<open>meta1\<close>, \<open>DB.meta()\<close> returns \<open>meta0\<close> when \<open>t0 > t1\<close> and
  \<open>meta1\<close> otherwise, so the meta with the greater transaction id; every transaction that
  \<open>DB.Transaction\<close> begins takes that meta and reads its bucket catalog from the page the
  meta names.
\<close>

theorem DB_meta_greater_txnid:
  assumes "meta0 db = Some m0" and "meta1 db = Some m1"
  shows "DB_meta db = Inr (if m_txnid m0 > m_txnid m1 then m0 else m1)
       \<and> (\<forall>m. DB_meta db = Inr m \<longrightarrow> m_txnid m = max (m_txnid m0) (m_txnid m1))
       \<and> (\<forall>a t db'. DB_Transaction a db = Inr (t, db') \<longrightarrow>
             t_meta t = (if m_txnid m0 > m_txnid m1 then m0 else m1)
             \<and> (\<exists>p. DB_page db (m_sys (t_meta t)) = Inr p \<and> t_sys t = sys_read p))"
proof -
  have cur: "DB_meta db = Inr (if m_txnid m0 > m_txnid m1 then m0 else m1)"
    using assms by (simp add: DB_meta_def)
  have mx: "\<forall>m. DB_meta db = Inr m \<longrightarrow> m_txnid m = max (m_txnid m0) (m_txnid m1)"
    using cur by (auto simp: max_def)
  have tx: "\<forall>a t db'. DB_Transaction a db = Inr (t, db') \<longrightarrow>
             t_meta t = (if m_txnid m0 > m_txnid m1 then m0 else m1)
             \<and> (\<exists>p. DB_page db (m_sys (t_meta t)) = Inr p \<and> t_sys t = sys_read p)"
  proof (intro allI impI)
    fix a t db'
    assume "DB_Transaction a db = Inr (t, db')"
    then obtain t0 where "Transaction_init db t0 = Inr t"
      by (auto simp: DB_Transaction_def split: if_splits sum.splits)
    from Transaction_init_meta [OF this] cur
    show "t_meta t = (if m_txnid m0 > m_txnid m1 then m0 else m1)
             \<and> (\<exists>p. DB_page db (m_sys (t_meta t)) = Inr p \<and> t_sys t = sys_read p)"
      by auto
  qed
  from cur mx tx show ?thesis by blast
qed

theorem DB_meta_greater_txnid_witness:
  "meta0 new_db = Some \<lparr>m_magic = 0xDEADC0DE, m_version = 1, m_pageSize = 4096, m_pgid = 4,
                   m_free = 2, m_sys = 3, m_txnid = 0\<rparr>
   \<and> meta1 new_db = Some \<lparr>m_magic = 0xDEADC0DE, m_version = 1, m_pageSize = 4096, m_pgid = 4,
                   m_free = 2, m_sys = 3, m_txnid = 1\<rparr>
   \<and> DB_meta new_db = Inr \<lparr>m_magic = 0xDEADC0DE, m_version = 1, m_pageSize = 4096, m_pgid = 4,
                   m_free = 2, m_sys = 3, m_txnid = 1\<rparr>
   \<and> m_txnid (t_meta (fst (projr (DB_Transaction 7 new_db)))) = 1"
proof -
  have h0: "meta0 new_db = Some \<lparr>m_magic = 0xDEADC0DE, m_version = 1, m_pageSize = 4096,
                   m_pgid = 4, m_free = 2, m_sys = 3, m_txnid = 0\<rparr>"
    and h1: "meta1 new_db = Some \<lparr>m_magic = 0xDEADC0DE, m_version = 1, m_pageSize = 4096,
                   m_pgid = 4, m_free = 2, m_sys = 3, m_txnid = 1\<rparr>"
    by (simp_all add: new_db_eq)
  from DB_meta_greater_txnid [OF h0 h1] h0 h1 new_db_Transaction [of 7]
  show ?thesis by simp
qed

section \<open>Flushing\<close>

text \<open>
  Claim C3.  The claim is that for every open database \<open>sync()\<close> performs an fsync on the
  data file and returns its result.  The source returns \<open>DatabaseAlreadyOpenedError\<close> for
  every open database, before the system call: nothing is flushed and the log of calls is
  unchanged.
\<close>

theorem sync_refuses_open_database:
  "DB_sync ev (db\<lparr>opened := True\<rparr>) force w = (Some DatabaseAlreadyOpenedError, w)"
  by (simp add: DB_sync_def)

section \<open>Readers\<close>

text \<open>
  Claim C8.  The claim is that a read-only transaction is no longer in \<open>db.transactions\<close>
  after its \<open>Close()\<close> returns.  In the source \<open>Close\<close> does nothing: the reader that
  \<open>DB.Transaction\<close> begins on the example database is still registered after \<open>Close\<close>,
  and \<open>DB.removeTransaction\<close>, which would remove it, is not called.
\<close>

theorem Close_keeps_reader_registered:
  "\<exists>t db. DB_Transaction 7 new_db = Inr (t, db)
     \<and> t \<in> set (transactions (Transaction_Close t db))
     \<and> t \<notin> set (transactions (removeTransaction t db))"
  by (simp add: new_db_Transaction Transaction_Close_def removeTransaction_def)

text \<open>
  Claim C9.  For every transaction \<open>t\<close> and page id \<open>i\<close>, \<open>t.page(i)\<close> is the buffered
  dirty page when \<open>i\<close> is a key of the dirty-page map of \<open>t\<close>, and the page that
  \<open>DB.page\<close> finds in the mmap otherwise (also when the map is nil); a reader begun by
  \<open>DB.Transaction\<close> has a nil map, so all its pages come from the mmap.
\<close>

theorem Transaction_page_dirty_first:
  "(\<forall>pages p. t_pages t = Some pages \<and> pages i = Some p \<longrightarrow> Transaction_page db t i = Inr p)
   \<and> (\<forall>pages. t_pages t = Some pages \<and> i \<notin> dom pages \<longrightarrow>
         Transaction_page db t i = DB_page db i)
   \<and> (t_pages t = None \<longrightarrow> Transaction_page db t i = DB_page db i)
   \<and> (\<forall>a r db'. DB_Transaction a db = Inr (r, db') \<longrightarrow>
         Transaction_page db' r i = DB_page db' i)"
proof -
  have "\<forall>a r db'. DB_Transaction a db = Inr (r, db') \<longrightarrow>
          Transaction_page db' r i = DB_page db' i"
  proof (intro allI impI)
    fix a r db'
    assume h: "DB_Transaction a db = Inr (r, db')"
    then obtain t0 where "Transaction_init db t0 = Inr r"
      by (auto simp: DB_Transaction_def split: if_splits sum.splits)
    from Transaction_init_meta [OF this] have "t_pages r = None" by simp
    then show "Transaction_page db' r i = DB_page db' i"
      by (simp add: Transaction_page_def)
  qed
  then show ?thesis
    by (auto simp: Transaction_page_def domIff)
qed

theorem Transaction_page_dirty_first_witness:
  "Transaction_page new_db
     \<lparr>t_addr = 7, t_id = 0, t_meta = zero_meta, t_sys = [],
      t_pages = Some [5 \<mapsto> zero_page\<lparr>pg_id := 5\<rparr>]\<rparr> 5 = Inr (zero_page\<lparr>pg_id := 5\<rparr>)
   \<and> Transaction_page new_db
     \<lparr>t_addr = 7, t_id = 0, t_meta = zero_meta, t_sys = [],
      t_pages = Some [5 \<mapsto> zero_page\<lparr>pg_id := 5\<rparr>]\<rparr> 2 = DB_page new_db 2
   \<and> pg_id (projr (DB_page new_db 2)) = 2"
proof -
  have pg: "DB_page new_db 2 = Inr (zero_page\<lparr>pg_id := 2, pg_flags := 16\<rparr>)"
    by (simp add: new_db_eq DB_page_def new_world_pages)
  from Transaction_page_dirty_first
    [of "\<lparr>t_addr = 7, t_id = 0, t_meta = zero_meta, t_sys = [],
          t_pages = Some [5 \<mapsto> zero_page\<lparr>pg_id := 5\<rparr>]\<rparr>" 5 new_db]
    Transaction_page_dirty_first
    [of "\<lparr>t_addr = 7, t_id = 0, t_meta = zero_meta, t_sys = [],
          t_pages = Some [5 \<mapsto> zero_page\<lparr>pg_id := 5\<rparr>]\<rparr>" 2 new_db]
    pg
  show ?thesis by simp
qed

section \<open>Lookups in a bucket that does not exist\<close>

text \<open>
  Claim C10.  For every open database whose catalog page has no bucket of the name,
  \<open>Transaction.Bucket\<close> returns nil, and \<open>Transaction.Get\<close> and \<open>DB.Get\<close> return a nil
  value; \<open>DB.Get\<close> returns a nil error with it.
\<close>

theorem lookup_missing_bucket_is_nil:
  assumes op: "opened db"
    and cur: "DB_meta db = Inr m"
    and pg: "DB_page db (m_sys m) = Inr p"
    and none: "sys_get (sys_read p) name = None"
  shows "\<exists>t db'. DB_Transaction a db = Inr (t, db')
           \<and> Transaction_Bucket t name = None
           \<and> Transaction_Get cursor cget t name key = None
           \<and> DB_Get cursor cget a db name key = (None, None, db')"
  using assms
  by (simp add: DB_Transaction_def Transaction_init_def Transaction_page_def
      Transaction_Bucket_def Transaction_Cursor_def Transaction_Get_def DB_Get_def
      Transaction_Close_def Let_def)

theorem lookup_missing_bucket_is_nil_witness:
  "opened new_db \<and> DB_meta new_db = Inr (the (meta1 new_db))
   \<and> DB_page new_db (m_sys (the (meta1 new_db))) = Inr (zero_page\<lparr>pg_id := 3, pg_flags := 8\<rparr>)
   \<and> sys_get (sys_read (zero_page\<lparr>pg_id := 3, pg_flags := 8\<rparr>)) ''widgets'' = None
   \<and> fst (DB_Get (\<lambda>b. Some b) (\<lambda>c k. Some k) 7 new_db ''widgets'' [102, 111, 111]) = None
   \<and> fst (snd (DB_Get (\<lambda>b. Some b) (\<lambda>c k. Some k) 7 new_db ''widgets'' [102, 111, 111]))
       = None"
proof -
  have h1: "opened new_db" by (simp add: new_db_eq)
  have h2: "DB_meta new_db = Inr (the (meta1 new_db))"
    by (simp add: new_db_eq DB_meta_def)
  have h3: "DB_page new_db (m_sys (the (meta1 new_db)))
              = Inr (zero_page\<lparr>pg_id := 3, pg_flags := 8\<rparr>)"
    by (simp add: new_db_eq DB_page_def new_world_pages)
  have h4: "sys_get (sys_read (zero_page\<lparr>pg_id := 3, pg_flags := 8\<rparr>)) ''widgets'' = None"
    by (simp add: sys_get_def sys_read_def zero_page_def)
  from lookup_missing_bucket_is_nil
    [OF h1 h2 h3 h4, of 7 "\<lambda>b. Some b" "\<lambda>c k. Some k" "[102, 111, 111]"]
  obtain t db' where
    "DB_Get (\<lambda>b. Some b) (\<lambda>c k. Some k) 7 new_db ''widgets'' [102, 111, 111] = (None, None, db')"
    by blast
  with h1 h2 h3 h4 show ?thesis by simp
qed

section \<open>Opening an existing file\<close>










section \<open>Beginning a writer\<close>

lemma min_txnid_Min: "min_txnid ts m = Min (insert m (Transaction_id ` set ts))"
proof (induction ts arbitrary: m)
  case Nil
  then show ?case by simp
next
  case (Cons t ts)
  have fin: "finite (Transaction_id ` set ts)" by simp
  have "Min (insert (min (Transaction_id t) m) (Transaction_id ` set ts))
        = Min (insert m (insert (Transaction_id t) (Transaction_id ` set ts)))"
  proof (cases "set ts = {}")
    case True
    then show ?thesis by (simp add: min.commute)
  next
    case False
    then have ne: "Transaction_id ` set ts \<noteq> {}" by simp
    show ?thesis
      using fin ne by (simp add: min.assoc min.commute)
  qed
  moreover have "(if Transaction_id t < m then Transaction_id t else m) = min (Transaction_id t) m"
    by (auto simp: min_def)
  ultimately show ?case using Cons.IH by simp
qed

lemma min_txnid_readers:
  assumes "ts \<noteq> []"
  shows "min_txnid ts 0xFFFFFFFFFFFFFFFF = Min (Transaction_id ` set ts)"
proof -
  have top: "(0xFFFFFFFFFFFFFFFF :: 64 word) = - 1" by simp
  have ne: "Transaction_id ` set ts \<noteq> {}" using assms by simp
  have "Min (insert (- 1) (Transaction_id ` set ts)) = min (- 1) (Min (Transaction_id ` set ts))"
    using ne by simp
  also have "\<dots> = Min (Transaction_id ` set ts)"
    by (rule min_absorb2) simp
  finally show ?thesis unfolding top min_txnid_Min .
qed

lemma word_le_pred:
  fixes m :: "64 word"
  assumes "m \<noteq> 0"
  shows "x \<le> m - 1 \<longleftrightarrow> x < m"
proof -
  have "unat m \<noteq> 0" using assms by (simp add: unat_eq_0)
  then have "unat (m - 1) = unat m - 1" using assms by (simp add: unat_minus_one)
  with \<open>unat m \<noteq> 0\<close> show ?thesis
    by (auto simp: word_le_nat_alt word_less_nat_alt)
qed

lemma release_effect:
  assumes "(x, pgs) \<in> set (pending f)"
  shows "if x \<le> k then set pgs \<subseteq> set (ids (freelist_release k f))
                     \<and> (x, pgs) \<notin> set (pending (freelist_release k f))
         else (x, pgs) \<in> set (pending (freelist_release k f))"
  using assms by (auto simp: freelist_release_def)

text \<open>
  What \<open>DB.RWTransaction\<close> does when it returns a writer: \<open>minid\<close> is the least
  transaction id of the readers in \<open>db.transactions\<close> (the initial value
  \<open>0xFFFFFFFFFFFFFFFF\<close> when the list is empty); when \<open>minid > 0\<close> the freelist is the old
  one after \<open>release(minid - 1)\<close>, so that the pages pending under a transaction id below
  \<open>minid\<close> are in the free list and no longer pending, and the other pending entries stay;
  when \<open>minid = 0\<close> the freelist is unchanged.
\<close>

theorem RWTransaction_releases_below_min_reader:
  assumes beg: "DB_RWTransaction a db = Returns (Inr (t, db'))"
  shows "let minid = min_txnid (transactions db) 0xFFFFFFFFFFFFFFFF in
         (transactions db \<noteq> [] \<longrightarrow> minid = Min (Transaction_id ` set (transactions db)))
       \<and> (0 < minid \<longrightarrow>
            (\<exists>f. freelist db = Some f \<and> freelist db' = Some (freelist_release (minid - 1) f)
               \<and> (\<forall>x pgs. (x, pgs) \<in> set (pending f) \<longrightarrow>
                     (if x < minid
                      then set pgs \<subseteq> set (ids (freelist_release (minid - 1) f))
                         \<and> (x, pgs) \<notin> set (pending (freelist_release (minid - 1) f))
                      else (x, pgs) \<in> set (pending (freelist_release (minid - 1) f))))))
       \<and> (minid = 0 \<longrightarrow> freelist db' = freelist db)"
proof -
  define minid where "minid = min_txnid (transactions db) 0xFFFFFFFFFFFFFFFF"
  have a: "transactions db \<noteq> [] \<longrightarrow> minid = Min (Transaction_id ` set (transactions db))"
    unfolding minid_def using min_txnid_readers by blast
  have b: "0 < minid \<longrightarrow> (\<exists>f. freelist db = Some f \<and> freelist db' = Some (freelist_release (minid - 1) f))"
    using beg unfolding minid_def
    by (auto simp: DB_RWTransaction_def Let_def split: if_splits sum.splits option.splits)
  have c: "minid = 0 \<longrightarrow> freelist db' = freelist db"
    using beg unfolding minid_def
    by (auto simp: DB_RWTransaction_def Let_def split: if_splits sum.splits option.splits)
  have d: "\<forall>f x pgs. 0 < minid \<longrightarrow> (x, pgs) \<in> set (pending f) \<longrightarrow>
                     (if x < minid
                      then set pgs \<subseteq> set (ids (freelist_release (minid - 1) f))
                         \<and> (x, pgs) \<notin> set (pending (freelist_release (minid - 1) f))
                      else (x, pgs) \<in> set (pending (freelist_release (minid - 1) f)))"
  proof (intro impI allI)
    fix f :: freelist and x :: txnid and pgs :: "pgid list"
    assume pos: "0 < minid" and mem: "(x, pgs) \<in> set (pending f)"
    from pos have "minid \<noteq> 0" by auto
    from word_le_pred [OF this, of x] release_effect [OF mem, of "minid - 1"]
    show "if x < minid
          then set pgs \<subseteq> set (ids (freelist_release (minid - 1) f))
             \<and> (x, pgs) \<notin> set (pending (freelist_release (minid - 1) f))
          else (x, pgs) \<in> set (pending (freelist_release (minid - 1) f))"
      by simp
  qed
  have bd: "0 < minid \<longrightarrow>
            (\<exists>f. freelist db = Some f \<and> freelist db' = Some (freelist_release (minid - 1) f)
               \<and> (\<forall>x pgs. (x, pgs) \<in> set (pending f) \<longrightarrow>
                     (if x < minid
                      then set pgs \<subseteq> set (ids (freelist_release (minid - 1) f))
                         \<and> (x, pgs) \<notin> set (pending (freelist_release (minid - 1) f))
                      else (x, pgs) \<in> set (pending (freelist_release (minid - 1) f)))))"
  proof
    assume pos: "0 < minid"
    with b obtain f where f: "freelist db = Some f"
      "freelist db' = Some (freelist_release (minid - 1) f)" by blast
    from d pos have "\<forall>x pgs. (x, pgs) \<in> set (pending f) \<longrightarrow>
                     (if x < minid
                      then set pgs \<subseteq> set (ids (freelist_release (minid - 1) f))
                         \<and> (x, pgs) \<notin> set (pending (freelist_release (minid - 1) f))
                      else (x, pgs) \<in> set (pending (freelist_release (minid - 1) f)))"
      by blast
    with f show "\<exists>f. freelist db = Some f \<and> freelist db' = Some (freelist_release (minid - 1) f)
               \<and> (\<forall>x pgs. (x, pgs) \<in> set (pending f) \<longrightarrow>
                     (if x < minid
                      then set pgs \<subseteq> set (ids (freelist_release (minid - 1) f))
                         \<and> (x, pgs) \<notin> set (pending (freelist_release (minid - 1) f))
                      else (x, pgs) \<in> set (pending (freelist_release (minid - 1) f))))"
      by blast
  qed
  from a bd c show ?thesis
    unfolding Let_def minid_def [symmetric] by (intro conjI)
qed

lemma reader_db_RWTransaction:
  "\<exists>t d. DB_RWTransaction 8
      (new_db\<lparr>transactions := [\<lparr>t_addr = 7, t_id = 0, t_meta = the (meta1 new_db), t_sys = [],
                                 t_pages = None\<rparr>],
              freelist := Some \<lparr>ids = [], pending = [(0, [5, 6]), (1, [7])]\<rparr>\<rparr>)
     = Returns (Inr (t, d))"
  by (simp add: new_db_eq DB_RWTransaction_def RWTransaction_init_def Transaction_init_def
      Transaction_page_def DB_meta_def DB_page_def new_world_pages Transaction_id_def Let_def)

theorem RWTransaction_releases_below_min_reader_witness:
  "\<exists>t d. DB_RWTransaction 8
      (new_db\<lparr>transactions := [\<lparr>t_addr = 7, t_id = 0, t_meta = the (meta1 new_db), t_sys = [],
                                 t_pages = None\<rparr>],
              freelist := Some \<lparr>ids = [], pending = [(0, [5, 6]), (1, [7])]\<rparr>\<rparr>)
     = Returns (Inr (t, d))
     \<and> freelist d = Some \<lparr>ids = [5, 6], pending = [(1, [7])]\<rparr>"
proof -
  from reader_db_RWTransaction obtain t d where
    h: "DB_RWTransaction 8
      (new_db\<lparr>transactions := [\<lparr>t_addr = 7, t_id = 0, t_meta = the (meta1 new_db), t_sys = [],
                                 t_pages = None\<rparr>],
              freelist := Some \<lparr>ids = [], pending = [(0, [5, 6]), (1, [7])]\<rparr>\<rparr>)
     = Returns (Inr (t, d))"
    by blast
  have m: "min_txnid [\<lparr>t_addr = 7, t_id = 0, t_meta = the (meta1 new_db), t_sys = [],
                                 t_pages = None\<rparr>] 0xFFFFFFFFFFFFFFFF = 1"
    by (simp add: new_db_eq Transaction_id_def)
  from RWTransaction_releases_below_min_reader [OF h]
  have "freelist d = Some (freelist_release 0 \<lparr>ids = [], pending = [(0, [5, 6]), (1, [7])]\<rparr>)"
    by (simp add: m Let_def del: min_txnid.simps)
  then have "freelist d = Some \<lparr>ids = [5, 6], pending = [(1, [7])]\<rparr>"
    by (simp add: freelist_release_def)
  with h show ?thesis by blast
qed

text \<open>
  Claim C4.  The claim is that a writer's begin takes the minimum transaction id over
  the currently open readers and releases below it, so that pages freed by transactions
  no open reader can still see become reusable.  The source takes the minimum over
  \<open>db.transactions\<close>, and \<open>Transaction.Close\<close> removes nothing from that list.  On the
  example database a reader is begun and closed, and page 7 is pending under transaction
  2: \<open>DB.RWTransaction\<close> finds \<open>minid = 1\<close>, held by the closed reader, and page 7 stays
  pending although no reader is open.  Had the reader been removed, as
  \<open>DB.removeTransaction\<close> does, \<open>minid\<close> would be \<open>0xFFFFFFFFFFFFFFFF\<close> and page 7 free.
\<close>

theorem RWTransaction_held_back_by_closed_reader:
  "\<exists>t d wt d1 wt' d2.
     DB_Transaction 7 new_db = Inr (t, d)
     \<and> DB_RWTransaction 8
          ((Transaction_Close t d)\<lparr>freelist := Some \<lparr>ids = [], pending = [(2, [7])]\<rparr>\<rparr>)
         = Returns (Inr (wt, d1))
     \<and> min_txnid (transactions (Transaction_Close t d)) 0xFFFFFFFFFFFFFFFF = 1
     \<and> freelist d1 = Some \<lparr>ids = [], pending = [(2, [7])]\<rparr>
     \<and> DB_RWTransaction 8
          ((removeTransaction t d)\<lparr>freelist := Some \<lparr>ids = [], pending = [(2, [7])]\<rparr>\<rparr>)
         = Returns (Inr (wt', d2))
     \<and> min_txnid (transactions (removeTransaction t d)) 0xFFFFFFFFFFFFFFFF = 0xFFFFFFFFFFFFFFFF
     \<and> freelist d2 = Some \<lparr>ids = [7], pending = []\<rparr>"
proof -
  let ?t = "\<lparr>t_addr = 7, t_id = 0,
             t_meta = \<lparr>m_magic = 0xDEADC0DE, m_version = 1, m_pageSize = 4096, m_pgid = 4,
                       m_free = 2, m_sys = 3, m_txnid = 1\<rparr>,
             t_sys = [], t_pages = None\<rparr>"
  let ?d = "new_db\<lparr>transactions := [?t]\<rparr>"
  let ?f = "Some \<lparr>ids = [], pending = [(2, [7])]\<rparr>"
  note rw_defs = DB_RWTransaction_def RWTransaction_init_def Transaction_init_def
    Transaction_page_def DB_meta_def DB_page_def new_db_eq new_world_pages Transaction_id_def
    freelist_release_def Let_def
  have tx: "DB_Transaction 7 new_db = Inr (?t, ?d)"
    by (rule new_db_Transaction)
  have m1: "min_txnid (transactions (Transaction_Close ?t ?d)) 0xFFFFFFFFFFFFFFFF = 1"
    by (simp add: Transaction_Close_def Transaction_id_def)
  have m2: "min_txnid (transactions (removeTransaction ?t ?d)) 0xFFFFFFFFFFFFFFFF
              = 0xFFFFFFFFFFFFFFFF"
    by (simp add: removeTransaction_def)
  have "\<exists>wt d1. DB_RWTransaction 8 ((Transaction_Close ?t ?d)\<lparr>freelist := ?f\<rparr>)
                   = Returns (Inr (wt, d1))
                 \<and> freelist d1 = Some \<lparr>ids = [], pending = [(2, [7])]\<rparr>"
    by (simp add: Transaction_Close_def rw_defs)
  then obtain wt d1 where
    w1: "DB_RWTransaction 8 ((Transaction_Close ?t ?d)\<lparr>freelist := ?f\<rparr>) = Returns (Inr (wt, d1))"
    and f1: "freelist d1 = Some \<lparr>ids = [], pending = [(2, [7])]\<rparr>"
    by blast
  have "\<exists>wt' d2. DB_RWTransaction 8 ((removeTransaction ?t ?d)\<lparr>freelist := ?f\<rparr>)
                   = Returns (Inr (wt', d2))
                 \<and> freelist d2 = Some \<lparr>ids = [7], pending = []\<rparr>"
    by (simp add: removeTransaction_def rw_defs)
  then obtain wt' d2 where
    w2: "DB_RWTransaction 8 ((removeTransaction ?t ?d)\<lparr>freelist := ?f\<rparr>) = Returns (Inr (wt', d2))"
    and f2: "freelist d2 = Some \<lparr>ids = [7], pending = []\<rparr>"
    by blast
  from tx w1 m1 f1 w2 m2 f2 show ?thesis
    by (intro exI conjI)
qed

section \<open>Creating a new file\<close>

lemma page_off:
  assumes "0 \<le> ps" "ps < 2 ^ 32" "k \<le> 3"
  shows "unat ((of_nat k :: 64 word) * word_of_int ps) = k * nat ps"
proof -
  have eq: "(word_of_int ps :: 64 word) = of_nat (nat ps)"
    using assms(1) by simp
  have "nat ps < 2 ^ 32" using assms by (simp add: nat_less_iff)
  then have "k * nat ps \<le> 3 * 2 ^ 32" using assms(3)
    by (meson mult_mono less_imp_le zero_le)
  then have lt: "k * nat ps < 2 ^ 64" by simp
  have "(of_nat k :: 64 word) * of_nat (nat ps) = of_nat (k * nat ps)" by simp
  then show ?thesis using lt eq by (simp add: unat_of_nat del: of_nat_mult)
qed

lemma page_off_nums:
  assumes "0 \<le> ps" "ps < 2 ^ 32"
  shows "unat ((0 :: 64 word) * word_of_int ps) = 0"
    and "unat ((1 :: 64 word) * word_of_int ps) = nat ps"
    and "unat ((2 :: 64 word) * word_of_int ps) = 2 * nat ps"
    and "unat ((3 :: 64 word) * word_of_int ps) = 3 * nat ps"
  using page_off [OF assms, of 0] page_off [OF assms, of 1] page_off [OF assms, of 2]
    page_off [OF assms, of 3]
  by simp_all

lemma init_result:
  assumes ps: "minPageSize \<le> e_Getpagesize ev" "e_Getpagesize ev < 2 ^ 32"
    and mf: "metafile db = Some h" and wr: "e_WriteAt ev = None"
  shows "DB_init ev db w =
    (None, db\<lparr>pageSize := e_Getpagesize ev\<rparr>,
     emit (EvWriteAt h 0 (e_Getpagesize ev * 4)) w
       \<lparr>w_disk := write_at
          \<lparr>r_len = e_Getpagesize ev * 4,
           r_page = (\<lambda>_. zero_page)
             (0 := zero_page\<lparr>pg_id := 0, pg_flags := p_meta,
                   pg_meta := \<lparr>m_magic = magic, m_version = version,
                     m_pageSize = word_of_int (e_Getpagesize ev), m_pgid = 4, m_free = 2,
                     m_sys = 3, m_txnid = 0\<rparr>\<rparr>,
              nat (e_Getpagesize ev) := zero_page\<lparr>pg_id := 1, pg_flags := p_meta,
                   pg_meta := \<lparr>m_magic = magic, m_version = version,
                     m_pageSize = word_of_int (e_Getpagesize ev), m_pgid = 4, m_free = 2,
                     m_sys = 3, m_txnid = 1\<rparr>\<rparr>,
              2 * nat (e_Getpagesize ev) :=
                zero_page\<lparr>pg_id := 2, pg_flags := p_freelist, pg_count := 0\<rparr>,
              3 * nat (e_Getpagesize ev) :=
                zero_page\<lparr>pg_id := 3, pg_flags := p_sys, pg_count := 0\<rparr>)\<rparr>
          0 (w_disk w)\<rparr>)"
proof -
  have nn: "0 \<le> e_Getpagesize ev" using ps(1) by (simp add: minPageSize_def)
  have pos: "0 < nat (e_Getpagesize ev)" using ps(1) by (simp add: minPageSize_def)
  note offs = page_off_nums [OF nn ps(2)]
  show ?thesis
    using ps pos mf wr offs
    by (simp add: DB_init_def init_meta_page_def init_empty_page_def pageInBuffer_def
        make_bytes_def minPageSize_def emit_def zero_page_def zero_meta_def Let_def)
qed

text \<open>
  Claim C7, as amended.  On an empty file, with an OS page size of at least \<open>minPageSize\<close>
  that fits the \<open>uint32\<close> field, \<open>init\<close> writes at page ids 0 and 1 two meta pages
  that validate (magic 0xDEADC0DE, version 1, page size equal to the OS page size, freelist
  page id 2, bucket-catalog page id 3, next-unallocated page id 4, transaction ids 0 and
  1), at id 2 an empty freelist page (count 0) and at id 3 an empty bucket-catalog page
  (count 0).  The four pages go to the file in one \<open>WriteAt\<close> at offset 0 on the metadata
  handle, which \<open>Open\<close> opened with \<open>O_SYNC\<close>; that is the only call \<open>init\<close> makes.
\<close>

theorem init_writes_four_pages:
  assumes ps: "minPageSize \<le> e_Getpagesize ev" "e_Getpagesize ev < 2 ^ 32"
    and mf: "metafile db = Some h" and wr: "e_WriteAt ev = None"
    and empty: "r_len (w_disk w) = 0"
  shows "\<exists>db' w'. DB_init ev db w = (None, db', w')
     \<and> pageSize db' = e_Getpagesize ev
     \<and> w_log w' = w_log w @ [EvWriteAt h 0 (4 * e_Getpagesize ev)]
     \<and> r_len (w_disk w') = 4 * e_Getpagesize ev
     \<and> pg_id (r_page (w_disk w') 0) = 0
     \<and> pg_flags (r_page (w_disk w') 0) = p_meta
     \<and> validate (pg_meta (r_page (w_disk w') 0)) = None
     \<and> m_magic (pg_meta (r_page (w_disk w') 0)) = 0xDEADC0DE
     \<and> m_version (pg_meta (r_page (w_disk w') 0)) = 1
     \<and> uint (m_pageSize (pg_meta (r_page (w_disk w') 0))) = e_Getpagesize ev
     \<and> m_free (pg_meta (r_page (w_disk w') 0)) = 2
     \<and> m_sys (pg_meta (r_page (w_disk w') 0)) = 3
     \<and> m_pgid (pg_meta (r_page (w_disk w') 0)) = 4
     \<and> m_txnid (pg_meta (r_page (w_disk w') 0)) = 0
     \<and> pg_id (r_page (w_disk w') (nat (e_Getpagesize ev))) = 1
     \<and> pg_flags (r_page (w_disk w') (nat (e_Getpagesize ev))) = p_meta
     \<and> validate (pg_meta (r_page (w_disk w') (nat (e_Getpagesize ev)))) = None
     \<and> m_magic (pg_meta (r_page (w_disk w') (nat (e_Getpagesize ev)))) = 0xDEADC0DE
     \<and> m_version (pg_meta (r_page (w_disk w') (nat (e_Getpagesize ev)))) = 1
     \<and> uint (m_pageSize (pg_meta (r_page (w_disk w') (nat (e_Getpagesize ev))))) = e_Getpagesize ev
     \<and> m_free (pg_meta (r_page (w_disk w') (nat (e_Getpagesize ev)))) = 2
     \<and> m_sys (pg_meta (r_page (w_disk w') (nat (e_Getpagesize ev)))) = 3
     \<and> m_pgid (pg_meta (r_page (w_disk w') (nat (e_Getpagesize ev)))) = 4
     \<and> m_txnid (pg_meta (r_page (w_disk w') (nat (e_Getpagesize ev)))) = 1
     \<and> pg_id (r_page (w_disk w') (2 * nat (e_Getpagesize ev))) = 2
     \<and> pg_flags (r_page (w_disk w') (2 * nat (e_Getpagesize ev))) = p_freelist
     \<and> pg_count (r_page (w_disk w') (2 * nat (e_Getpagesize ev))) = 0
     \<and> page_freelist (r_page (w_disk w') (2 * nat (e_Getpagesize ev))) = []
     \<and> pg_id (r_page (w_disk w') (3 * nat (e_Getpagesize ev))) = 3
     \<and> pg_flags (r_page (w_disk w') (3 * nat (e_Getpagesize ev))) = p_sys
     \<and> pg_count (r_page (w_disk w') (3 * nat (e_Getpagesize ev))) = 0"
proof -
  have pos: "0 < nat (e_Getpagesize ev)" "0 \<le> e_Getpagesize ev"
    using ps(1) by (simp_all add: minPageSize_def)
  have u: "uint (word_of_int (e_Getpagesize ev) :: 32 word) = e_Getpagesize ev"
    by (rule word_of_int_inverse [OF refl]) (use pos ps in simp_all)
  show ?thesis
    unfolding init_result [OF ps mf wr]
    using pos u empty
    by (simp add: emit_def write_at_def validate_def zero_page_def zero_meta_def
        page_freelist_def magic_def version_def)
qed

text \<open>
  The claim as stated ends with "then fsyncs".  \<open>init\<close> on the empty file with page size
  4096 succeeds and its only call is the \<open>WriteAt\<close>: there is no fsync of either handle.
\<close>

theorem init_no_fsync_counterexample:
  "fst (DB_init (sysenv 4096) (NewDB\<lparr>metafile := Some MetaFile\<rparr>) empty_world) = None
   \<and> w_log (snd (snd (DB_init (sysenv 4096) (NewDB\<lparr>metafile := Some MetaFile\<rparr>) empty_world)))
       = [EvWriteAt MetaFile 0 16384]
   \<and> EvFsync MetaFile
       \<notin> set (w_log (snd (snd (DB_init (sysenv 4096) (NewDB\<lparr>metafile := Some MetaFile\<rparr>)
                                     empty_world))))
   \<and> EvFsync DataFile
       \<notin> set (w_log (snd (snd (DB_init (sysenv 4096) (NewDB\<lparr>metafile := Some MetaFile\<rparr>)
                                     empty_world))))"
  by (simp add: open_defs Let_def)

theorem init_writes_four_pages_witness:
  "\<exists>d w. DB_init (sysenv 4096) (NewDB\<lparr>metafile := Some MetaFile\<rparr>) empty_world = (None, d, w)
     \<and> pageSize d = 4096 \<and> r_len (w_disk w) = 16384
     \<and> w_log w = [EvWriteAt MetaFile 0 16384]
     \<and> m_txnid (pg_meta (r_page (w_disk w) 0)) = 0
     \<and> m_txnid (pg_meta (r_page (w_disk w) 4096)) = 1
     \<and> pg_id (r_page (w_disk w) 8192) = 2
     \<and> pg_id (r_page (w_disk w) 12288) = 3"
proof -
  have h: "minPageSize \<le> e_Getpagesize (sysenv 4096)" "e_Getpagesize (sysenv 4096) < 2 ^ 32"
    "metafile (NewDB\<lparr>metafile := Some MetaFile\<rparr>) = Some MetaFile"
    "e_WriteAt (sysenv 4096) = None" "r_len (w_disk empty_world) = 0"
    by (simp_all add: sysenv_def minPageSize_def empty_world_def)
  from init_writes_four_pages [OF h]
  show ?thesis by (fastforce simp: sysenv_def empty_world_def)
qed

section \<open>Allocating pages\<close>

lemma sint_len:
  assumes "0 < n" "n < 2 ^ 63"
  shows "sint (word_of_int n :: 64 word) = n"
  using assms by (simp add: signed_of_int signed_take_bit_int_eq_self)

lemma uint_overflow:
  assumes "1 \<le> c" "c \<le> 2 ^ 32"
  shows "uint (word_of_int (c - 1) :: 32 word) = c - 1"
  by (rule word_of_int_inverse [OF refl]) (use assms in simp_all)

text \<open>
  Claim C5.  For every \<open>count \<ge> 1\<close> requested while a writer is open, on a database with
  a positive page size (and \<open>count*pageSize\<close> within Go's \<open>int\<close>), \<open>DB.allocate(count)\<close>
  returns a buffer of \<open>count*pageSize\<close> bytes with overflow \<open>uint32(count - 1)\<close>, which is
  \<open>count - 1\<close> for \<open>count \<le> 2^32\<close>.  Its page id is the one \<open>freelist.allocate(count)\<close>
  returns when that is not 0, and the writer's meta is then unchanged; otherwise it is the
  next-unallocated page id of the writer's meta, which is then advanced by \<open>count\<close>.  The
  mmap is unchanged, and the function writes to no file.
\<close>

theorem allocate_page:
  assumes cnt: "1 \<le> count" and ps: "0 < pageSize db" and sz: "count * pageSize db < 2 ^ 63"
    and fl: "freelist db = Some f" and rw: "rwtransaction db = Some t"
  shows "\<exists>p db'. DB_allocate db count = Inr ((count * pageSize db, p), db')
     \<and> pg_overflow p = word_of_int (count - 1)
     \<and> (count \<le> 2 ^ 32 \<longrightarrow> uint (pg_overflow p) = count - 1)
     \<and> freelist db' = Some (snd (freelist_allocate count f))
     \<and> (fst (freelist_allocate count f) \<noteq> 0 \<longrightarrow>
           pg_id p = fst (freelist_allocate count f) \<and> rwtransaction db' = Some t)
     \<and> (fst (freelist_allocate count f) = 0 \<longrightarrow>
           pg_id p = m_pgid (t_meta t)
           \<and> rwtransaction db' =
               Some (t\<lparr>t_meta := (t_meta t)\<lparr>m_pgid := m_pgid (t_meta t) + word_of_int count\<rparr>\<rparr>))
     \<and> data db' = data db"
proof -
  have pos: "0 < count * pageSize db" using cnt ps by simp
  have n: "sint (word_of_int (count * pageSize db) :: 64 word) = count * pageSize db"
    using sint_len [OF pos sz] .
  obtain i f' where fa: "freelist_allocate count f = (i, f')" by (cases "freelist_allocate count f")
  show ?thesis
  proof (cases "i = 0")
    case True
    then show ?thesis
      using n pos fl rw fa cnt uint_overflow [of count]
      by (simp add: DB_allocate_def make_bytes_def zero_page_def Let_def)
  next
    case False
    then show ?thesis
      using n pos fl rw fa cnt uint_overflow [of count]
      by (simp add: DB_allocate_def make_bytes_def zero_page_def Let_def)
  qed
qed

lemma run_ids2: "run_ids x 2 = [x, x + 1]"
  by (simp add: run_ids_def eval_nat_numeral)

theorem allocate_page_witness:
  "(\<exists>p d. DB_allocate
       (new_db\<lparr>rwtransaction := Some \<lparr>t_addr = 8, t_id = 0,
                  t_meta = (the (meta1 new_db))\<lparr>m_txnid := 2\<rparr>, t_sys = [],
                  t_pages = Some Map.empty, rw_nodes = Map.empty\<rparr>\<rparr>) 2
       = Inr ((8192, p), d)
       \<and> pg_id p = 4 \<and> pg_overflow p = 1
       \<and> map_option (\<lambda>t. m_pgid (t_meta t)) (rwtransaction d) = Some 6)
   \<and> (\<exists>p d. DB_allocate
       (new_db\<lparr>rwtransaction := Some \<lparr>t_addr = 8, t_id = 0,
                  t_meta = (the (meta1 new_db))\<lparr>m_txnid := 2\<rparr>, t_sys = [],
                  t_pages = Some Map.empty, rw_nodes = Map.empty\<rparr>,
               freelist := Some \<lparr>ids = [5, 6, 9], pending = []\<rparr>\<rparr>) 2
       = Inr ((8192, p), d)
       \<and> pg_id p = 5 \<and> pg_overflow p = 1
       \<and> freelist d = Some \<lparr>ids = [9], pending = []\<rparr>
       \<and> map_option (\<lambda>t. m_pgid (t_meta t)) (rwtransaction d) = Some 4)"
proof -
  let ?t = "\<lparr>t_addr = 8, t_id = 0, t_meta = (the (meta1 new_db))\<lparr>m_txnid := 2\<rparr>, t_sys = [],
             t_pages = Some Map.empty, rw_nodes = Map.empty\<rparr>"
  let ?db1 = "new_db\<lparr>rwtransaction := Some ?t\<rparr>"
  let ?db2 = "new_db\<lparr>rwtransaction := Some ?t, freelist := Some \<lparr>ids = [5, 6, 9], pending = []\<rparr>\<rparr>"
  have fa1: "freelist_allocate 2 \<lparr>ids = [], pending = []\<rparr> = (0, \<lparr>ids = [], pending = []\<rparr>)"
    by (simp add: freelist_allocate_def)
  have fa2: "freelist_allocate 2 \<lparr>ids = [5, 6, 9], pending = []\<rparr> = (5, \<lparr>ids = [9], pending = []\<rparr>)"
    by (simp add: freelist_allocate_def run_ids2)
  have a1: "\<exists>p d. DB_allocate ?db1 2 = Inr ((8192, p), d)
       \<and> pg_id p = 4 \<and> pg_overflow p = 1
       \<and> map_option (\<lambda>t. m_pgid (t_meta t)) (rwtransaction d) = Some 6"
    using allocate_page [of 2 ?db1 "\<lparr>ids = [], pending = []\<rparr>" ?t] fa1
    by (fastforce simp: new_db_eq)
  have a2: "\<exists>p d. DB_allocate ?db2 2 = Inr ((8192, p), d)
       \<and> pg_id p = 5 \<and> pg_overflow p = 1
       \<and> freelist d = Some \<lparr>ids = [9], pending = []\<rparr>
       \<and> map_option (\<lambda>t. m_pgid (t_meta t)) (rwtransaction d) = Some 4"
    using allocate_page [of 2 ?db2 "\<lparr>ids = [5, 6, 9], pending = []\<rparr>" ?t] fa2
    by (fastforce simp: new_db_eq)
  from a1 a2 show ?thesis by (rule conjI)
qed

end
